theory Spec2Isabelle
  imports Complex_Main "HOL-Library.Sublist"
begin

section \<open>Python values used by \<^verbatim>\<open>app.py\<close>\<close>

text \<open>
  The portal is one Python file. Its two parts with behaviour of their own are the slide
  resolver (class \<^verbatim>\<open>PresentationGenerator\<close> and \<^verbatim>\<open>generate_presentation_slide\<close>) and the
  progress store (\<^verbatim>\<open>load_user_progress\<close>, \<^verbatim>\<open>save_user_progress\<close>, \<^verbatim>\<open>update_user_progress\<close>).
  Both are embedded below, line by line.

  A Python exception is a value: a routine that can raise returns \<open>py_error + 'a\<close>,
  with \<open>Inl\<close> for the exception.
\<close>

datatype py_error =
  KeyError | IndexError | ZeroDivisionError | FileNotFoundError | PermissionError | JSONDecodeError

text \<open>
  Strings are byte strings in UTF-8. A character of the source that is not ASCII is written
  \<open>utf8 n\<close> with its code point \<open>n\<close>; substring tests and equality of well-formed UTF-8
  strings agree with those of the code point sequences Python compares.
\<close>

definition utf8 :: "nat \<Rightarrow> string" where
  "utf8 n =
     (if n < 0x80 then [char_of n]
      else if n < 0x800 then [char_of (0xC0 + n div 0x40), char_of (0x80 + n mod 0x40)]
      else if n < 0x10000 then
        [char_of (0xE0 + n div 0x1000), char_of (0x80 + n div 0x40 mod 0x40),
         char_of (0x80 + n mod 0x40)]
      else
        [char_of (0xF0 + n div 0x40000), char_of (0x80 + n div 0x1000 mod 0x40),
         char_of (0x80 + n div 0x40 mod 0x40), char_of (0x80 + n mod 0x40)])"

text \<open>\<^verbatim>\<open>str(n)\<close> of an integer: its decimal digits, with a minus sign when negative.\<close>

fun str_nat :: "nat \<Rightarrow> string" where
  "str_nat n = (if n < 10 then [char_of (48 + n)] else str_nat (n div 10) @ [char_of (48 + n mod 10)])"

declare str_nat.simps [simp del]

definition py_str :: "int \<Rightarrow> string" where
  "py_str i = (if i < 0 then CHR ''-'' # str_nat (nat (- i)) else str_nat (nat i))"

text \<open>
  \<^verbatim>\<open>s.title()\<close>: a cased character is upper-cased when the character before it is not
  cased, and lower-cased otherwise; other characters are kept. The model knows the ASCII
  letters as cased; bytes of a character outside ASCII are kept as they are.
\<close>

definition is_upper :: "char \<Rightarrow> bool" where
  "is_upper c = (65 \<le> (of_char c :: nat) \<and> (of_char c :: nat) \<le> 90)"

definition is_lower :: "char \<Rightarrow> bool" where
  "is_lower c = (97 \<le> (of_char c :: nat) \<and> (of_char c :: nat) \<le> 122)"

definition to_upper :: "char \<Rightarrow> char" where
  "to_upper c = (if is_lower c then char_of ((of_char c :: nat) - 32) else c)"

definition to_lower :: "char \<Rightarrow> char" where
  "to_lower c = (if is_upper c then char_of ((of_char c :: nat) + 32) else c)"

fun title_from :: "bool \<Rightarrow> string \<Rightarrow> string" where
  "title_from previous_is_cased [] = []"
| "title_from previous_is_cased (c # cs) =
     (if is_upper c \<or> is_lower c
      then (if previous_is_cased then to_lower c else to_upper c) # title_from True cs
      else c # title_from False cs)"

definition py_title :: "string \<Rightarrow> string" where
  "py_title s = title_from False s"

text \<open>\<^verbatim>\<open>sep.join(xs)\<close>.\<close>

fun py_join :: "string \<Rightarrow> string list \<Rightarrow> string" where
  "py_join sep [] = []"
| "py_join sep [x] = x"
| "py_join sep (x # y # ys) = x @ sep @ py_join sep (y # ys)"

text \<open>
  \<^verbatim>\<open>xs[i]\<close> on a list: a negative index counts from the end, and an index outside
  \<open>-len(xs) \<le> i < len(xs)\<close> raises \<^verbatim>\<open>IndexError\<close>.
\<close>

definition py_index :: "'a list \<Rightarrow> int \<Rightarrow> py_error + 'a" where
  "py_index xs i =
     (if 0 \<le> i \<and> i < int (length xs) then Inr (xs ! nat i)
      else if i < 0 \<and> - int (length xs) \<le> i then Inr (xs ! nat (int (length xs) + i))
      else Inl IndexError)"

text \<open>
  \<^verbatim>\<open>d.get(key, default)\<close> on a dictionary whose key \<open>key\<close> is a field that may be
  absent: the field is an option, \<open>None\<close> when the key is not in the dictionary.
\<close>

definition dict_get :: "'a option \<Rightarrow> 'a \<Rightarrow> 'a" where
  "dict_get field dflt = (case field of None \<Rightarrow> dflt | Some v \<Rightarrow> v)"

text \<open>\<^verbatim>\<open>x in s\<close> on strings is the contiguous-substring test \<^const>\<open>sublist\<close>.\<close>

section \<open>The configuration\<close>

text \<open>
  \<^verbatim>\<open>module_config.json\<close> is read once, in \<^verbatim>\<open>load_config\<close>, into the global \<^verbatim>\<open>config\<close>. Its three
  tables are dictionaries keyed by strings, kept here as association lists read with
  \<^const>\<open>map_of\<close>. A module is a dictionary that the code reads with \<^verbatim>\<open>get\<close> and a default, so
  each of its five keys may be absent; \<open>other_keys\<close> are the keys it holds beyond those five.
\<close>

record module =
  title :: "string option"
  description :: "string option"
  topics :: "string list option"
  hands_on :: "bool option"
  difficulty :: "string option"
  other_keys :: "string list"

record criteria =
  understanding :: int
  application :: int
  problem_solving :: int

record template =
  slides :: "string list"

record config =
  modules :: "(string \<times> module) list"
  presentation_templates :: "(string \<times> template) list"
  assessment_criteria :: "(string \<times> criteria) list"

text \<open>The empty dictionary \<^verbatim>\<open>{}\<close>, and the truth value of a dictionary (\<^verbatim>\<open>{}\<close> is false).\<close>

definition empty_dict :: module where
  "empty_dict = \<lparr>title = None, description = None, topics = None, hands_on = None,
     difficulty = None, other_keys = []\<rparr>"

definition truthy :: "module option \<Rightarrow> bool" where
  "truthy module_data = (case module_data of None \<Rightarrow> False | Some d \<Rightarrow> d \<noteq> empty_dict)"

text \<open>\<^verbatim>\<open>len(d)\<close> of a dictionary: the number of its keys.\<close>

definition dict_len :: "('k \<times> 'v) list \<Rightarrow> nat" where
  "dict_len d = length (remdups (map fst d))"

section \<open>The slide texts\<close>

text \<open>
  Each routine of \<^verbatim>\<open>PresentationGenerator\<close> builds a dictionary \<^verbatim>\<open>content\<close> from slide index to
  an f-string. The f-strings follow, one definition for each key of each dictionary, one
  line of the theory for each line of the source; \<open>t\<close> is the routine's \<^verbatim>\<open>title\<close>. Entry 4
  of the module overview is written in three parts: the lines before the assessment
  components, the three lines that hold the percentages, and the lines after them.
\<close>

definition introduction_content_0 :: "string \<Rightarrow> string" where
  \<open>introduction_content_0 t =
     ''# '' @ utf8 0x1F680 @ '' '' @ t @ ''\<newline>'' @
     ''            \<newline>'' @
     ''Welcome to the **AI-Driven Quality Assurance Professional Development Portal**!\<newline>'' @
     ''\<newline>'' @
     ''## What You'll Experience:\<newline>'' @
     ''- '' @ utf8 0x1F3AF @ '' **Practical AI Integration** in QA workflows\<newline>'' @
     ''- '' @ utf8 0x1F6E0 @ utf8 0xFE0F @ '' **Hands-on Projects** with real-world applications\<newline>'' @
     ''- '' @ utf8 0x1F4CA @ '' **Template-driven Learning** with structured presentations\<newline>'' @
     ''- '' @ utf8 0x1F916 @ '' **AI Tools and Techniques** specific to QA professionals\<newline>'' @
     ''\<newline>'' @
     ''## Our Approach:\<newline>'' @
     ''- **Theory + Practice**: Balance conceptual understanding with practical implementation\<newline>'' @
     ''- **Personalized Learning**: Adapt to your experience level and interests\<newline>'' @
     ''- **Community Focus**: Connect with fellow QA professionals exploring AI\<newline>'' @
     ''\<newline>'' @
     ''Ready to transform your QA practice with AI? Let's begin! '' @ utf8 0x1F31F\<close>

definition introduction_content_1 :: "string \<Rightarrow> string" where
  \<open>introduction_content_1 t =
     ''# '' @ utf8 0x1F4DA @ '' '' @ t @ ''\<newline>'' @
     ''            \<newline>'' @
     ''## Your Personalized Learning Path\<newline>'' @
     ''\<newline>'' @
     ''### '' @ utf8 0x1F3AF @ '' Core Modules Available:\<newline>'' @
     ''1. **Programming/Building Projects with AI** - Build automation tools and chatbots\<newline>'' @
     ''2. **Best Practices with AI** - Learn effective and safe AI usage\<newline>'' @
     ''3. **QA + AI Integration** - Advanced testing process automation\<newline>'' @
     ''4. **Knowledge Bases with AI** - Create intelligent QA assistants\<newline>'' @
     ''5. **AI Compliance & Governance** - Ethical and legal frameworks\<newline>'' @
     ''6. **Essential AI Concepts** - MCP, RAG, Fine-Tuning basics\<newline>'' @
     ''\<newline>'' @
     ''### '' @ utf8 0x1F6E4 @ utf8 0xFE0F @ '' Learning Paths:\<newline>'' @
     ''- **Beginner**: Start with AI fundamentals and best practices\<newline>'' @
     ''- **Intermediate**: Focus on practical integration and tools\<newline>'' @
     ''- **Advanced**: Deep dive into custom solutions and governance\<newline>'' @
     ''\<newline>'' @
     ''### '' @ utf8 0x1F4CA @ '' Progress Tracking:\<newline>'' @
     ''- Real-time progress monitoring\<newline>'' @
     ''- Skill acquisition tracking\<newline>'' @
     ''- Hands-on project portfolio\<newline>'' @
     ''- Personalized recommendations''\<close>

definition introduction_content_2 :: "string \<Rightarrow> string" where
  \<open>introduction_content_2 t =
     ''# '' @ utf8 0x1F6E0 @ utf8 0xFE0F @ '' '' @ t @ ''\<newline>'' @
     ''            \<newline>'' @
     ''## Essential Tools & Platforms\<newline>'' @
     ''\<newline>'' @
     ''### '' @ utf8 0x1F916 @ '' AI Platforms:\<newline>'' @
     ''- **OpenAI GPT Models** - For text generation and analysis\<newline>'' @
     ''- **Langchain** - For building AI applications\<newline>'' @
     ''- **Vector Databases** - ChromaDB, FAISS for knowledge bases\<newline>'' @
     ''- **Gradio** - For creating interactive interfaces\<newline>'' @
     ''\<newline>'' @
     ''### '' @ utf8 0x1F527 @ '' QA-Specific Tools:\<newline>'' @
     ''- **Test Automation Frameworks** - Selenium, Playwright integration\<newline>'' @
     ''- **API Testing** - Postman, REST Assured with AI enhancement\<newline>'' @
     ''- **Performance Testing** - JMeter with AI-driven analysis\<newline>'' @
     ''- **Bug Tracking** - Jira integration with AI insights\<newline>'' @
     ''\<newline>'' @
     ''### '' @ utf8 0x1F4DA @ '' Resources:\<newline>'' @
     ''- **Documentation** - Interactive guides and tutorials\<newline>'' @
     ''- **Code Repositories** - GitHub templates and examples\<newline>'' @
     ''- **Community Forums** - Peer support and knowledge sharing\<newline>'' @
     ''- **Certification Paths** - Industry-recognized credentials\<newline>'' @
     ''\<newline>'' @
     ''### '' @ utf8 0x1F510 @ '' Setup Requirements:\<newline>'' @
     ''- Python 3.8+ environment\<newline>'' @
     ''- API keys for AI services\<newline>'' @
     ''- Development tools installation\<newline>'' @
     ''- Access to testing environments''\<close>

definition introduction_content_3 :: "string \<Rightarrow> string" where
  \<open>introduction_content_3 t =
     ''# '' @ utf8 0x1F3AF @ '' '' @ t @ ''\<newline>'' @
     ''            \<newline>'' @
     ''## What You'll Achieve\<newline>'' @
     ''\<newline>'' @
     ''### '' @ utf8 0x1F680 @ '' Immediate Outcomes:\<newline>'' @
     ''- **Automate repetitive QA tasks** using AI tools\<newline>'' @
     ''- **Generate intelligent test cases** from requirements\<newline>'' @
     ''- **Analyze bugs and failures** with AI assistance\<newline>'' @
     ''- **Create custom QA chatbots** for your team\<newline>'' @
     ''\<newline>'' @
     ''### '' @ utf8 0x1F393 @ '' Skill Development:\<newline>'' @
     ''- **Prompt Engineering** for QA-specific tasks\<newline>'' @
     ''- **AI Model Integration** in testing workflows\<newline>'' @
     ''- **Knowledge Base Creation** for QA documentation\<newline>'' @
     ''- **Compliance Understanding** for AI in enterprise\<newline>'' @
     ''\<newline>'' @
     ''### '' @ utf8 0x1F4C8 @ '' Career Advancement:\<newline>'' @
     ''- **Enhanced Productivity** - Automate routine tasks\<newline>'' @
     ''- **Strategic Value** - Become an AI-savvy QA professional\<newline>'' @
     ''- **Innovation Leadership** - Drive AI adoption in your organization\<newline>'' @
     ''- **Continuous Learning** - Stay ahead of industry trends\<newline>'' @
     ''\<newline>'' @
     ''### '' @ utf8 0x1F31F @ '' Long-term Impact:\<newline>'' @
     ''- Transform from traditional QA to AI-enhanced QA\<newline>'' @
     ''- Lead digital transformation initiatives\<newline>'' @
     ''- Mentor others in AI adoption\<newline>'' @
     ''- Contribute to the future of quality assurance\<newline>'' @
     ''\<newline>'' @
     ''**Ready to start your AI-QA journey?** '' @ utf8 0x1F680\<close>

definition module_overview_content_0 :: "string \<Rightarrow> module \<Rightarrow> string" where
  \<open>module_overview_content_0 t module_data =
     ''# '' @ utf8 0x1F4D6 @ '' '' @ t @ '': '' @ dict_get (title module_data) ''Module'' @ ''\<newline>'' @
     ''            \<newline>'' @
     ''## Module Overview\<newline>'' @
     dict_get (description module_data) ''No description available'' @ ''\<newline>'' @
     ''\<newline>'' @
     ''### '' @ utf8 0x1F3AF @ '' Target Audience:\<newline>'' @
     ''- **Difficulty Level**: '' @ py_title (dict_get (difficulty module_data) ''Not specified'') @ ''\<newline>'' @
     ''- **Hands-on Component**: '' @ (if dict_get (hands_on module_data) False then utf8 0x2705 @ '' Yes'' else utf8 0x274C @ '' No'') @ ''\<newline>'' @
     ''- **Prerequisites**: Basic understanding of QA processes\<newline>'' @
     ''\<newline>'' @
     ''### '' @ utf8 0x1F4CA @ '' Module Structure:\<newline>'' @
     ''- **Duration**: 2-4 hours (flexible pacing)\<newline>'' @
     ''- **Format**: Interactive presentations + practical exercises\<newline>'' @
     ''- **Assessment**: Hands-on projects and knowledge checks\<newline>'' @
     ''- **Certification**: Module completion certificate\<newline>'' @
     ''\<newline>'' @
     ''### '' @ utf8 0x1F527 @ '' What You'll Need:\<newline>'' @
     ''- Python development environment\<newline>'' @
     ''- Access to AI APIs (OpenAI, etc.)\<newline>'' @
     ''- Basic command line familiarity\<newline>'' @
     ''- Willingness to experiment and learn!''\<close>

definition module_overview_content_1 :: "string \<Rightarrow> string" where
  \<open>module_overview_content_1 t =
     ''# '' @ utf8 0x1F3AF @ '' '' @ t @ ''\<newline>'' @
     ''            \<newline>'' @
     ''## Learning Objectives\<newline>'' @
     ''\<newline>'' @
     ''By the end of this module, you will be able to:\<newline>'' @
     ''\<newline>'' @
     ''### '' @ utf8 0x1F4DA @ '' Understand:\<newline>'' @
     ''- Core concepts and terminology\<newline>'' @
     ''- Real-world applications in QA\<newline>'' @
     ''- Benefits and limitations\<newline>'' @
     ''- Best practices and common pitfalls\<newline>'' @
     ''\<newline>'' @
     ''### '' @ utf8 0x1F6E0 @ utf8 0xFE0F @ '' Apply:\<newline>'' @
     ''- Practical implementation techniques\<newline>'' @
     ''- Integration with existing workflows\<newline>'' @
     ''- Troubleshooting and optimization\<newline>'' @
     ''- Quality assurance principles\<newline>'' @
     ''\<newline>'' @
     ''### '' @ utf8 0x1F680 @ '' Create:\<newline>'' @
     ''- Custom solutions for your QA needs\<newline>'' @
     ''- Automated testing enhancements\<newline>'' @
     ''- AI-powered QA tools\<newline>'' @
     ''- Documentation and knowledge sharing\<newline>'' @
     ''\<newline>'' @
     ''### '' @ utf8 0x1F50D @ '' Evaluate:\<newline>'' @
     ''- Effectiveness of AI solutions\<newline>'' @
     ''- Quality metrics and KPIs\<newline>'' @
     ''- Risk assessment and mitigation\<newline>'' @
     ''- Continuous improvement strategies\<newline>'' @
     ''\<newline>'' @
     ''*These objectives align with industry standards and career advancement requirements.*''\<close>

definition module_overview_content_2 :: "string \<Rightarrow> module \<Rightarrow> string" where
  \<open>module_overview_content_2 t module_data =
     ''# '' @ utf8 0x1F4CB @ '' '' @ t @ ''\<newline>'' @
     ''            \<newline>'' @
     ''## Key Topics Covered\<newline>'' @
     ''\<newline>'' @
     ''### '' @ utf8 0x1F50D @ '' Deep Dive Topics:\<newline>'' @
     py_join ''\<newline>'' (map (\<lambda>topic. ''- **'' @ topic @ ''**'') (dict_get (topics module_data) [])) @
     ''\<newline>'' @
     ''\<newline>'' @
     ''### '' @ utf8 0x1F3AF @ '' Focus Areas:\<newline>'' @
     ''- **Theoretical Foundation**: Understanding core concepts\<newline>'' @
     ''- **Practical Application**: Real-world implementation\<newline>'' @
     ''- **Industry Standards**: Best practices and compliance\<newline>'' @
     ''- **Future Trends**: Emerging technologies and approaches\<newline>'' @
     ''\<newline>'' @
     ''### '' @ utf8 0x1F4CA @ '' Content Structure:\<newline>'' @
     ''1. **Introduction & Context** (15 minutes)\<newline>'' @
     ''2. **Core Concepts** (30 minutes)\<newline>'' @
     ''3. **Hands-on Practice** (60 minutes)\<newline>'' @
     ''4. **Advanced Techniques** (30 minutes)\<newline>'' @
     ''5. **Assessment & Review** (15 minutes)\<newline>'' @
     ''\<newline>'' @
     ''### '' @ utf8 0x1F517 @ '' Integration Points:\<newline>'' @
     ''- Connection to other modules\<newline>'' @
     ''- Cross-functional applications\<newline>'' @
     ''- Industry use cases\<newline>'' @
     ''- Career development paths\<newline>'' @
     ''\<newline>'' @
     ''*Each topic includes practical examples and real-world case studies.*''\<close>

definition module_overview_content_3 :: "string \<Rightarrow> string" where
  \<open>module_overview_content_3 t =
     ''# '' @ utf8 0x1F6E0 @ utf8 0xFE0F @ '' '' @ t @ ''\<newline>'' @
     ''            \<newline>'' @
     ''## Hands-on Activities\<newline>'' @
     ''\<newline>'' @
     ''### '' @ utf8 0x1F3AE @ '' Interactive Exercises:\<newline>'' @
     ''- **Live Coding Sessions** - Build AI tools together\<newline>'' @
     ''- **Problem-Solving Challenges** - Real QA scenarios\<newline>'' @
     ''- **Peer Collaboration** - Group projects and discussions\<newline>'' @
     ''- **Tool Exploration** - Hands-on with latest AI platforms\<newline>'' @
     ''\<newline>'' @
     ''### '' @ utf8 0x1F528 @ '' Practical Projects:\<newline>'' @
     ''1. **Mini-Project**: Quick implementation (30 minutes)\<newline>'' @
     ''2. **Main Project**: Comprehensive solution (90 minutes)\<newline>'' @
     ''3. **Extension Challenge**: Advanced features (optional)\<newline>'' @
     ''\<newline>'' @
     ''### '' @ utf8 0x1F3AF @ '' Learning Methodologies:\<newline>'' @
     ''- **Learning by Doing**: Immediate application\<newline>'' @
     ''- **Guided Discovery**: Structured exploration\<newline>'' @
     ''- **Peer Learning**: Collaborative problem-solving\<newline>'' @
     ''- **Reflection**: Understanding and improvement\<newline>'' @
     ''\<newline>'' @
     ''### '' @ utf8 0x1F4F1 @ '' Tools & Resources:\<newline>'' @
     ''- **Interactive Notebooks** - Jupyter/Colab environments\<newline>'' @
     ''- **Code Repositories** - GitHub templates and examples\<newline>'' @
     ''- **Testing Environments** - Safe spaces to experiment\<newline>'' @
     ''- **Documentation** - Step-by-step guides\<newline>'' @
     ''\<newline>'' @
     ''*All activities are designed for practical application in your work environment.*''\<close>

definition module_overview_content_4_head :: "string \<Rightarrow> module \<Rightarrow> string" where
  \<open>module_overview_content_4_head t module_data =
     ''# '' @ utf8 0x1F4CA @ '' '' @ t @ ''\<newline>'' @
     ''            \<newline>'' @
     ''## Assessment Criteria\<newline>'' @
     ''\<newline>'' @
     ''### '' @ utf8 0x1F3AF @ '' Evaluation Framework:\<newline>'' @
     ''Based on difficulty level: **'' @ py_title (dict_get (difficulty module_data) ''intermediate'') @ ''**\<newline>'' @
     ''\<newline>'' @
     ''### '' @ utf8 0x1F4C8 @ '' Assessment Components:\<newline>''\<close>

definition assessment_components :: "criteria \<Rightarrow> string" where
  \<open>assessment_components c =
     ''- **Understanding** ('' @ py_str (understanding c) @ ''%): Conceptual grasp\<newline>'' @
     ''- **Application** ('' @ py_str (application c) @ ''%): Practical implementation\<newline>'' @
     ''- **Problem Solving** ('' @ py_str (problem_solving c) @ ''%): Critical thinking\<newline>''\<close>

definition module_overview_content_4_tail :: "string" where
  \<open>module_overview_content_4_tail =
     ''\<newline>'' @
     ''### '' @ utf8 0x2705 @ '' Success Indicators:\<newline>'' @
     ''- **Completion of hands-on projects**\<newline>'' @
     ''- **Demonstration of key concepts**\<newline>'' @
     ''- **Ability to adapt solutions**\<newline>'' @
     ''- **Quality of implementation**\<newline>'' @
     ''\<newline>'' @
     ''### '' @ utf8 0x1F3C6 @ '' Recognition:\<newline>'' @
     ''- **Module Completion Certificate**\<newline>'' @
     ''- **Skill Badges** for specific competencies\<newline>'' @
     ''- **Portfolio Projects** for career advancement\<newline>'' @
     ''- **Peer Recognition** through community contributions\<newline>'' @
     ''\<newline>'' @
     ''### '' @ utf8 0x1F504 @ '' Continuous Improvement:\<newline>'' @
     ''- Regular feedback collection\<newline>'' @
     ''- Performance analytics\<newline>'' @
     ''- Personalized recommendations\<newline>'' @
     ''- Adaptive learning paths\<newline>'' @
     ''\<newline>'' @
     ''*Assessment is designed to be supportive and growth-oriented.*''\<close>

definition module_overview_content_4 :: "string \<Rightarrow> module \<Rightarrow> criteria \<Rightarrow> string" where
  "module_overview_content_4 t module_data c =
     module_overview_content_4_head t module_data @ assessment_components c @ module_overview_content_4_tail"

definition hands_on_content_0 :: "string \<Rightarrow> string" where
  \<open>hands_on_content_0 t =
     ''# '' @ utf8 0x1F680 @ '' '' @ t @ ''\<newline>'' @
     ''            \<newline>'' @
     ''## Setup and Prerequisites\<newline>'' @
     ''\<newline>'' @
     ''### '' @ utf8 0x1F527 @ '' Technical Requirements:\<newline>'' @
     ''- **Python 3.8+** installed on your system\<newline>'' @
     ''- **pip** package manager\<newline>'' @
     ''- **Code editor** (VS Code, PyCharm, or similar)\<newline>'' @
     ''- **Terminal/Command line** access\<newline>'' @
     ''\<newline>'' @
     ''### '' @ utf8 0x1F4E6 @ '' Required Packages:\<newline>'' @
     ''```bash\<newline>'' @
     ''pip install gradio openai langchain chromadb pandas numpy matplotlib\<newline>'' @
     ''```\<newline>'' @
     ''\<newline>'' @
     ''### '' @ utf8 0x1F511 @ '' API Keys & Access:\<newline>'' @
     ''- **OpenAI API Key** - For GPT models\<newline>'' @
     ''- **Hugging Face Token** - For open-source models\<newline>'' @
     ''- **Database Access** - For knowledge bases\<newline>'' @
     ''- **Testing Environment** - Sandbox for experiments\<newline>'' @
     ''\<newline>'' @
     ''### '' @ utf8 0x1F4C1 @ '' Project Structure:\<newline>'' @
     ''```\<newline>'' @
     ''ai-qa-project/\<newline>'' @
     utf8 0x251C @ utf8 0x2500 @ utf8 0x2500 @ '' src/\<newline>'' @
     utf8 0x251C @ utf8 0x2500 @ utf8 0x2500 @ '' data/\<newline>'' @
     utf8 0x251C @ utf8 0x2500 @ utf8 0x2500 @ '' tests/\<newline>'' @
     utf8 0x251C @ utf8 0x2500 @ utf8 0x2500 @ '' config/\<newline>'' @
     utf8 0x2514 @ utf8 0x2500 @ utf8 0x2500 @ '' notebooks/\<newline>'' @
     ''```\<newline>'' @
     ''\<newline>'' @
     ''### '' @ utf8 0x2705 @ '' Verification Steps:\<newline>'' @
     ''1. Run `python --version` (should be 3.8+)\<newline>'' @
     ''2. Test package imports\<newline>'' @
     ''3. Verify API connectivity\<newline>'' @
     ''4. Check project structure\<newline>'' @
     ''\<newline>'' @
     ''*Don't worry if you encounter issues - we'll troubleshoot together!*''\<close>

definition hands_on_content_1 :: "string \<Rightarrow> string" where
  \<open>hands_on_content_1 t =
     ''# '' @ utf8 0x1F468 @ utf8 0x200D @ utf8 0x1F4BB @ '' '' @ t @ ''\<newline>'' @
     ''            \<newline>'' @
     ''## Step-by-Step Implementation\<newline>'' @
     ''\<newline>'' @
     ''### '' @ utf8 0x1F3AF @ '' Today's Project:\<newline>'' @
     ''Building an **AI-Powered Test Case Generator**\<newline>'' @
     ''\<newline>'' @
     ''### '' @ utf8 0x1F4CB @ '' Implementation Steps:\<newline>'' @
     ''\<newline>'' @
     ''#### Step 1: Environment Setup (5 minutes)\<newline>'' @
     ''```python\<newline>'' @
     ''import openai\<newline>'' @
     ''import gradio as gr\<newline>'' @
     ''import json\<newline>'' @
     ''from datetime import datetime\<newline>'' @
     ''```\<newline>'' @
     ''\<newline>'' @
     ''#### Step 2: Core Function Development (20 minutes)\<newline>'' @
     ''- Create the test case generation function\<newline>'' @
     ''- Implement prompt engineering for QA\<newline>'' @
     ''- Add validation and error handling\<newline>'' @
     ''\<newline>'' @
     ''#### Step 3: Gradio Interface (15 minutes)\<newline>'' @
     ''- Design user-friendly input forms\<newline>'' @
     ''- Create output display components\<newline>'' @
     ''- Add interactive elements\<newline>'' @
     ''\<newline>'' @
     ''#### Step 4: Integration & Testing (10 minutes)\<newline>'' @
     ''- Connect components\<newline>'' @
     ''- Test with sample data\<newline>'' @
     ''- Refine based on results\<newline>'' @
     ''\<newline>'' @
     ''### '' @ utf8 0x1F504 @ '' Iterative Development:\<newline>'' @
     ''- **Build** '' @ utf8 0x2192 @ '' **Test** '' @ utf8 0x2192 @ '' **Refine** '' @ utf8 0x2192 @ '' **Repeat**\<newline>'' @
     ''- Real-time feedback and improvements\<newline>'' @
     ''- Collaborative problem-solving\<newline>'' @
     ''\<newline>'' @
     ''*We'll code together, step by step!*''\<close>

definition hands_on_content_2 :: "string \<Rightarrow> string" where
  \<open>hands_on_content_2 t =
     ''# '' @ utf8 0x26A0 @ utf8 0xFE0F @ '' '' @ t @ ''\<newline>'' @
     ''            \<newline>'' @
     ''## Common Challenges\<newline>'' @
     ''\<newline>'' @
     ''### '' @ utf8 0x1F41B @ '' Technical Issues:\<newline>'' @
     ''- **API Rate Limits**: Implement proper throttling\<newline>'' @
     ''- **Token Limits**: Optimize prompt length\<newline>'' @
     ''- **Network Connectivity**: Add retry mechanisms\<newline>'' @
     ''- **Package Conflicts**: Use virtual environments\<newline>'' @
     ''\<newline>'' @
     ''### '' @ utf8 0x1F914 @ '' Conceptual Challenges:\<newline>'' @
     ''- **Prompt Engineering**: Crafting effective prompts\<newline>'' @
     ''- **Model Selection**: Choosing the right AI model\<newline>'' @
     ''- **Quality Validation**: Ensuring output quality\<newline>'' @
     ''- **Integration Complexity**: Connecting with existing tools\<newline>'' @
     ''\<newline>'' @
     ''### '' @ utf8 0x1F4A1 @ '' Solutions & Workarounds:\<newline>'' @
     ''- **Error Handling**: Graceful failure management\<newline>'' @
     ''- **Fallback Strategies**: Alternative approaches\<newline>'' @
     ''- **Performance Optimization**: Efficient processing\<newline>'' @
     ''- **User Experience**: Intuitive interfaces\<newline>'' @
     ''\<newline>'' @
     ''### '' @ utf8 0x1F527 @ '' Troubleshooting Tips:\<newline>'' @
     ''1. **Check logs** for detailed error messages\<newline>'' @
     ''2. **Test incrementally** - small steps\<newline>'' @
     ''3. **Use debugging tools** - print statements, debuggers\<newline>'' @
     ''4. **Seek help** - community support available\<newline>'' @
     ''\<newline>'' @
     ''### '' @ utf8 0x1F4DA @ '' Resources:\<newline>'' @
     ''- **Documentation**: Official guides and tutorials\<newline>'' @
     ''- **Stack Overflow**: Community Q&A\<newline>'' @
     ''- **GitHub Issues**: Known problems and solutions\<newline>'' @
     ''- **Office Hours**: Direct support sessions\<newline>'' @
     ''\<newline>'' @
     ''*Remember: Every expert was once a beginner!*''\<close>

definition hands_on_content_3 :: "string \<Rightarrow> string" where
  \<open>hands_on_content_3 t =
     ''# '' @ utf8 0x1F31F @ '' '' @ t @ ''\<newline>'' @
     ''            \<newline>'' @
     ''## Best Practices\<newline>'' @
     ''\<newline>'' @
     ''### '' @ utf8 0x1F3AF @ '' Development Principles:\<newline>'' @
     ''- **Start Simple**: Begin with basic functionality\<newline>'' @
     ''- **Iterate Quickly**: Rapid prototyping and testing\<newline>'' @
     ''- **Document Everything**: Clear code and process documentation\<newline>'' @
     ''- **Test Thoroughly**: Validate all components\<newline>'' @
     ''\<newline>'' @
     ''### '' @ utf8 0x1F512 @ '' Security & Compliance:\<newline>'' @
     ''- **API Key Management**: Secure storage and rotation\<newline>'' @
     ''- **Data Privacy**: Protect sensitive information\<newline>'' @
     ''- **Access Controls**: Implement proper permissions\<newline>'' @
     ''- **Audit Trails**: Track all activities\<newline>'' @
     ''\<newline>'' @
     ''### '' @ utf8 0x1F4CA @ '' Quality Assurance:\<newline>'' @
     ''- **Code Reviews**: Peer validation\<newline>'' @
     ''- **Automated Testing**: Unit and integration tests\<newline>'' @
     ''- **Performance Monitoring**: Track system metrics\<newline>'' @
     ''- **User Feedback**: Continuous improvement\<newline>'' @
     ''\<newline>'' @
     ''### '' @ utf8 0x1F680 @ '' Performance Optimization:\<newline>'' @
     ''- **Efficient Algorithms**: Choose optimal approaches\<newline>'' @
     ''- **Caching Strategies**: Reduce redundant processing\<newline>'' @
     ''- **Async Processing**: Handle concurrent requests\<newline>'' @
     ''- **Resource Management**: Optimize memory and CPU usage\<newline>'' @
     ''\<newline>'' @
     ''### '' @ utf8 0x1F91D @ '' Collaboration:\<newline>'' @
     ''- **Version Control**: Git best practices\<newline>'' @
     ''- **Documentation**: Clear and comprehensive\<newline>'' @
     ''- **Knowledge Sharing**: Team learning sessions\<newline>'' @
     ''- **Mentorship**: Support junior developers\<newline>'' @
     ''\<newline>'' @
     ''*These practices ensure sustainable, scalable solutions.*''\<close>

definition hands_on_content_4 :: "string \<Rightarrow> string" where
  \<open>hands_on_content_4 t =
     ''# '' @ utf8 0x1F52E @ '' '' @ t @ ''\<newline>'' @
     ''            \<newline>'' @
     ''## Next Steps\<newline>'' @
     ''\<newline>'' @
     ''### '' @ utf8 0x1F3AF @ '' Immediate Actions:\<newline>'' @
     ''- **Complete the current project**\<newline>'' @
     ''- **Test in your environment**\<newline>'' @
     ''- **Document your learnings**\<newline>'' @
     ''- **Share with your team**\<newline>'' @
     ''\<newline>'' @
     ''### '' @ utf8 0x1F4C8 @ '' Skill Development:\<newline>'' @
     ''- **Advanced Prompt Engineering**\<newline>'' @
     ''- **Custom Model Training**\<newline>'' @
     ''- **API Integration Mastery**\<newline>'' @
     ''- **Performance Optimization**\<newline>'' @
     ''\<newline>'' @
     ''### '' @ utf8 0x1F310 @ '' Community Engagement:\<newline>'' @
     ''- **Join AI-QA Forums**\<newline>'' @
     ''- **Contribute to Open Source**\<newline>'' @
     ''- **Attend Conferences**\<newline>'' @
     ''- **Network with Peers**\<newline>'' @
     ''\<newline>'' @
     ''### '' @ utf8 0x1F504 @ '' Continuous Learning:\<newline>'' @
     ''- **Follow Industry Trends**\<newline>'' @
     ''- **Experiment with New Tools**\<newline>'' @
     ''- **Practice Regularly**\<newline>'' @
     ''- **Seek Feedback**\<newline>'' @
     ''\<newline>'' @
     ''### '' @ utf8 0x1F3C6 @ '' Career Advancement:\<newline>'' @
     ''- **Build Portfolio Projects**\<newline>'' @
     ''- **Obtain Certifications**\<newline>'' @
     ''- **Lead AI Initiatives**\<newline>'' @
     ''- **Mentor Others**\<newline>'' @
     ''\<newline>'' @
     ''### '' @ utf8 0x1F4DA @ '' Recommended Resources:\<newline>'' @
     ''- **Books**: "AI for Quality Assurance"\<newline>'' @
     ''- **Courses**: Advanced AI specializations\<newline>'' @
     ''- **Blogs**: Industry thought leaders\<newline>'' @
     ''- **Podcasts**: AI in testing discussions\<newline>'' @
     ''\<newline>'' @
     ''*Your AI-QA journey is just beginning!*''\<close>

definition conclusion_content_0 :: "string \<Rightarrow> string" where
  \<open>conclusion_content_0 t =
     ''# '' @ utf8 0x1F389 @ '' '' @ t @ ''\<newline>'' @
     ''            \<newline>'' @
     ''## What You've Accomplished\<newline>'' @
     ''\<newline>'' @
     ''### '' @ utf8 0x1F3C6 @ '' Skills Acquired:\<newline>'' @
     ''- **AI Integration** in QA workflows\<newline>'' @
     ''- **Prompt Engineering** for testing scenarios\<newline>'' @
     ''- **Tool Development** using modern frameworks\<newline>'' @
     ''- **Problem-Solving** with AI assistance\<newline>'' @
     ''\<newline>'' @
     ''### '' @ utf8 0x1F6E0 @ utf8 0xFE0F @ '' Practical Outcomes:\<newline>'' @
     ''- **Automated Test Generation** tools\<newline>'' @
     ''- **AI-Enhanced Bug Analysis** systems\<newline>'' @
     ''- **Custom QA Chatbots** for team support\<newline>'' @
     ''- **Knowledge Base** creation and management\<newline>'' @
     ''\<newline>'' @
     ''### '' @ utf8 0x1F4CA @ '' Measurable Impact:\<newline>'' @
     ''- **Efficiency Gains**: 40-60% reduction in manual effort\<newline>'' @
     ''- **Quality Improvement**: Enhanced test coverage\<newline>'' @
     ''- **Innovation**: New approaches to QA challenges\<newline>'' @
     ''- **Career Growth**: Expanded skill set and opportunities\<newline>'' @
     ''\<newline>'' @
     ''### '' @ utf8 0x1F31F @ '' Personal Growth:\<newline>'' @
     ''- **Confidence**: Working with AI technologies\<newline>'' @
     ''- **Creativity**: Innovative problem-solving approaches\<newline>'' @
     ''- **Leadership**: Driving AI adoption in QA\<newline>'' @
     ''- **Adaptability**: Embracing technological change\<newline>'' @
     ''\<newline>'' @
     ''### '' @ utf8 0x1F52E @ '' Future Readiness:\<newline>'' @
     ''- **Emerging Technologies**: Prepared for AI evolution\<newline>'' @
     ''- **Industry Trends**: Understanding of QA direction\<newline>'' @
     ''- **Continuous Learning**: Foundation for ongoing development\<newline>'' @
     ''- **Professional Network**: Connections with AI-QA community\<newline>'' @
     ''\<newline>'' @
     ''*You're now equipped to lead AI transformation in QA!*''\<close>

definition conclusion_content_1 :: "string \<Rightarrow> string" where
  \<open>conclusion_content_1 t =
     ''# '' @ utf8 0x1F4DA @ '' '' @ t @ ''\<newline>'' @
     ''            \<newline>'' @
     ''## Further Resources\<newline>'' @
     ''\<newline>'' @
     ''### '' @ utf8 0x1F4D6 @ '' Essential Reading:\<newline>'' @
     ''- **"AI-Powered Testing"** by Tariq King\<newline>'' @
     ''- **"The Art of Prompt Engineering"** by Various Authors\<newline>'' @
     ''- **"Quality Assurance in the AI Era"** by Industry Experts\<newline>'' @
     ''- **"Automation Testing with AI"** by Practical Guides\<newline>'' @
     ''\<newline>'' @
     ''### '' @ utf8 0x1F310 @ '' Online Resources:\<newline>'' @
     ''- **AI Testing Handbook** - Comprehensive guide\<newline>'' @
     ''- **OpenAI Documentation** - API references and examples\<newline>'' @
     ''- **Gradio Documentation** - Interface development\<newline>'' @
     ''- **Langchain Tutorials** - AI application building\<newline>'' @
     ''\<newline>'' @
     ''### '' @ utf8 0x1F3A5 @ '' Video Content:\<newline>'' @
     ''- **YouTube Channels**: AI testing specialists\<newline>'' @
     ''- **Webinar Series**: Industry expert sessions\<newline>'' @
     ''- **Conference Talks**: Latest trends and techniques\<newline>'' @
     ''- **Tutorial Playlists**: Step-by-step implementations\<newline>'' @
     ''\<newline>'' @
     ''### '' @ utf8 0x1F527 @ '' Tools & Platforms:\<newline>'' @
     ''- **GitHub Repositories**: Open-source projects\<newline>'' @
     ''- **Hugging Face Hub**: Pre-trained models\<newline>'' @
     ''- **Kaggle Datasets**: Training data for AI models\<newline>'' @
     ''- **Google Colab**: Free computing resources\<newline>'' @
     ''\<newline>'' @
     ''### '' @ utf8 0x1F4E7 @ '' Newsletters & Updates:\<newline>'' @
     ''- **AI Testing Weekly** - Latest news and trends\<newline>'' @
     ''- **QA Innovation** - Industry developments\<newline>'' @
     ''- **Tech Updates** - Tool and platform updates\<newline>'' @
     ''- **Community Digest** - Peer insights and discussions\<newline>'' @
     ''\<newline>'' @
     ''*Stay connected with the rapidly evolving AI-QA landscape!*''\<close>

definition conclusion_content_2 :: "string \<Rightarrow> string" where
  \<open>conclusion_content_2 t =
     ''# '' @ utf8 0x1F91D @ '' '' @ t @ ''\<newline>'' @
     ''            \<newline>'' @
     ''## Community and Support\<newline>'' @
     ''\<newline>'' @
     ''### '' @ utf8 0x1F310 @ '' Online Communities:\<newline>'' @
     ''- **AI-QA Professionals Group** - LinkedIn community\<newline>'' @
     ''- **Reddit r/QualityAssurance** - Peer discussions\<newline>'' @
     ''- **Stack Overflow** - Technical Q&A\<newline>'' @
     ''- **Discord Servers** - Real-time chat support\<newline>'' @
     ''\<newline>'' @
     ''### '' @ utf8 0x1F4F1 @ '' Social Media:\<newline>'' @
     ''- **Twitter/X**: Follow AI-QA thought leaders\<newline>'' @
     ''- **LinkedIn**: Professional networking\<newline>'' @
     ''- **YouTube**: Educational content creators\<newline>'' @
     ''- **Medium**: Technical articles and insights\<newline>'' @
     ''\<newline>'' @
     ''### '' @ utf8 0x1F3E2 @ '' Professional Organizations:\<newline>'' @
     ''- **Association for Software Testing (AST)**\<newline>'' @
     ''- **International Software Testing Qualifications Board (ISTQB)**\<newline>'' @
     ''- **AI Testing Institute** - Specialized certification\<newline>'' @
     ''- **Local QA Meetups** - In-person networking\<newline>'' @
     ''\<newline>'' @
     ''### '' @ utf8 0x1F393 @ '' Mentorship Opportunities:\<newline>'' @
     ''- **Industry Mentors** - Experienced professionals\<newline>'' @
     ''- **Peer Mentoring** - Learning together\<newline>'' @
     ''- **Reverse Mentoring** - Sharing AI knowledge\<newline>'' @
     ''- **Community Leaders** - Guidance and support\<newline>'' @
     ''\<newline>'' @
     ''### '' @ utf8 0x1F4DE @ '' Direct Support:\<newline>'' @
     ''- **Office Hours** - Weekly Q&A sessions\<newline>'' @
     ''- **Email Support** - Technical assistance\<newline>'' @
     ''- **Discussion Forums** - Community help\<newline>'' @
     ''- **Private Consulting** - Personalized guidance\<newline>'' @
     ''\<newline>'' @
     ''### '' @ utf8 0x1F3AF @ '' Contributing Back:\<newline>'' @
     ''- **Open Source Projects** - Code contributions\<newline>'' @
     ''- **Knowledge Sharing** - Blog posts and tutorials\<newline>'' @
     ''- **Community Moderation** - Supporting others\<newline>'' @
     ''- **Conference Speaking** - Sharing experiences\<newline>'' @
     ''\<newline>'' @
     ''*Together, we're building the future of AI-enhanced QA!*''\<close>

definition conclusion_content_3 :: "string \<Rightarrow> string" where
  \<open>conclusion_content_3 t =
     ''# '' @ utf8 0x1F393 @ '' '' @ t @ ''\<newline>'' @
     ''            \<newline>'' @
     ''## Certification Path\<newline>'' @
     ''\<newline>'' @
     ''### '' @ utf8 0x1F3C6 @ '' Available Certifications:\<newline>'' @
     ''\<newline>'' @
     ''#### '' @ utf8 0x1F4CB @ '' Foundation Level:\<newline>'' @
     ''- **AI-QA Fundamentals** - Basic concepts and applications\<newline>'' @
     ''- **Prompt Engineering for QA** - Effective AI communication\<newline>'' @
     ''- **Duration**: 4-6 weeks\<newline>'' @
     ''- **Prerequisites**: Basic QA knowledge\<newline>'' @
     ''\<newline>'' @
     ''#### '' @ utf8 0x1F527 @ '' Practitioner Level:\<newline>'' @
     ''- **AI Test Automation Specialist** - Advanced automation\<newline>'' @
     ''- **QA AI Integration Expert** - Workflow optimization\<newline>'' @
     ''- **Duration**: 8-12 weeks\<newline>'' @
     ''- **Prerequisites**: Foundation certification\<newline>'' @
     ''\<newline>'' @
     ''#### '' @ utf8 0x1F680 @ '' Expert Level:\<newline>'' @
     ''- **AI-QA Solution Architect** - Enterprise-level design\<newline>'' @
     ''- **Innovation Leader** - Driving AI transformation\<newline>'' @
     ''- **Duration**: 12-16 weeks\<newline>'' @
     ''- **Prerequisites**: Practitioner certification\<newline>'' @
     ''\<newline>'' @
     ''### '' @ utf8 0x1F4CA @ '' Assessment Format:\<newline>'' @
     ''- **Practical Projects** (60%) - Real-world implementations\<newline>'' @
     ''- **Written Examination** (25%) - Theoretical knowledge\<newline>'' @
     ''- **Peer Review** (15%) - Community evaluation\<newline>'' @
     ''\<newline>'' @
     ''### '' @ utf8 0x1F3AF @ '' Industry Recognition:\<newline>'' @
     ''- **Employer Validation** - Recognized by top companies\<newline>'' @
     ''- **Career Advancement** - Promotion opportunities\<newline>'' @
     ''- **Salary Impact** - 15-30% increase potential\<newline>'' @
     ''- **Global Acceptance** - International recognition\<newline>'' @
     ''\<newline>'' @
     ''### '' @ utf8 0x1F504 @ '' Continuous Certification:\<newline>'' @
     ''- **Annual Renewal** - Stay current with trends\<newline>'' @
     ''- **Continuing Education** - Ongoing learning requirements\<newline>'' @
     ''- **Professional Development** - Skill maintenance\<newline>'' @
     ''- **Community Contribution** - Give back to the field\<newline>'' @
     ''\<newline>'' @
     ''*Your certification journey starts here!*''\<close>

section \<open>The slide resolver\<close>

text \<open>\<^verbatim>\<open>content.get(index, f"# {title}\n\nContent coming soon...")\<close>, the fallback of all four routines.\<close>

definition coming_soon :: "string \<Rightarrow> string" where
  "coming_soon t = ''# '' @ t @ ''\<newline>\<newline>Content coming soon...''"

definition generate_introduction_slide :: "string \<Rightarrow> int \<Rightarrow> string" where
  "generate_introduction_slide t index =
     (if index = 0 then introduction_content_0 t
      else if index = 1 then introduction_content_1 t
      else if index = 2 then introduction_content_2 t
      else if index = 3 then introduction_content_3 t
      else coming_soon t)"

text \<open>
  \<^verbatim>\<open>generate_module_overview_slide\<close> returns early when \<^verbatim>\<open>module_data\<close> is \<^verbatim>\<open>None\<close> or empty.
  Otherwise it builds all five entries of \<^verbatim>\<open>content\<close> before it looks \<^verbatim>\<open>index\<close> up, so the
  subscript \<^verbatim>\<open>config['assessment_criteria'][...]\<close> of entry 4 is evaluated for every index and
  raises \<^verbatim>\<open>KeyError\<close> when the difficulty is not a key of the table. The table is the one of
  the global \<^verbatim>\<open>config\<close>, not of \<^verbatim>\<open>self.config\<close>.
\<close>

definition generate_module_overview_slide ::
    "config \<Rightarrow> string \<Rightarrow> int \<Rightarrow> module option \<Rightarrow> py_error + string" where
  "generate_module_overview_slide config t index module_data' =
     (if \<not> truthy module_data' then Inr (''# '' @ t @ ''\<newline>\<newline>Module data not available'')
      else
        let module_data = the module_data' in
        case map_of (assessment_criteria config) (dict_get (difficulty module_data) ''intermediate'') of
          None \<Rightarrow> Inl KeyError
        | Some c \<Rightarrow>
            Inr (if index = 0 then module_overview_content_0 t module_data
                 else if index = 1 then module_overview_content_1 t
                 else if index = 2 then module_overview_content_2 t module_data
                 else if index = 3 then module_overview_content_3 t
                 else if index = 4 then module_overview_content_4 t module_data c
                 else coming_soon t))"

definition generate_hands_on_slide :: "string \<Rightarrow> int \<Rightarrow> module option \<Rightarrow> string" where
  "generate_hands_on_slide t index module_data =
     (if index = 0 then hands_on_content_0 t
      else if index = 1 then hands_on_content_1 t
      else if index = 2 then hands_on_content_2 t
      else if index = 3 then hands_on_content_3 t
      else if index = 4 then hands_on_content_4 t
      else coming_soon t)"

definition generate_conclusion_slide :: "string \<Rightarrow> int \<Rightarrow> string" where
  "generate_conclusion_slide t index =
     (if index = 0 then conclusion_content_0 t
      else if index = 1 then conclusion_content_1 t
      else if index = 2 then conclusion_content_2 t
      else if index = 3 then conclusion_content_3 t
      else coming_soon t)"

text \<open>
  \<^verbatim>\<open>PresentationGenerator.__init__\<close> keeps the configuration it is given and its template
  table. \<^verbatim>\<open>generate_slide\<close> checks the template, then the upper bound of the index only, and
  reads \<^verbatim>\<open>slides[slide_index]\<close> with Python's indexing.
\<close>

record presentation_generator =
  self_config :: config
  templates :: "(string \<times> template) list"

definition PresentationGenerator :: "config \<Rightarrow> presentation_generator" where
  "PresentationGenerator config = \<lparr>self_config = config, templates = presentation_templates config\<rparr>"

definition generate_slide ::
    "config \<Rightarrow> presentation_generator \<Rightarrow> string \<Rightarrow> int \<Rightarrow> module option \<Rightarrow> py_error + string" where
  "generate_slide config self template_type slide_index module_data =
     (case map_of (templates self) template_type of
        None \<Rightarrow> Inr ''Template not found''
      | Some template \<Rightarrow>
          if slide_index \<ge> int (length (slides template)) then Inr ''Slide not found''
          else
            (case py_index (slides template) slide_index of
               Inl e \<Rightarrow> Inl e
             | Inr slide_title \<Rightarrow>
                 if template_type = ''introduction''
                 then Inr (generate_introduction_slide slide_title slide_index)
                 else if template_type = ''module_overview''
                 then generate_module_overview_slide config slide_title slide_index module_data
                 else if template_type = ''hands_on_session''
                 then Inr (generate_hands_on_slide slide_title slide_index module_data)
                 else if template_type = ''conclusion''
                 then Inr (generate_conclusion_slide slide_title slide_index)
                 else Inr (''# '' @ slide_title @
                           ''\<newline>\<newline>Content for this slide type is being developed...'')))"

text \<open>
  \<^verbatim>\<open>generate_presentation_slide\<close> is what the user interface calls. \<^verbatim>\<open>module_id\<close> is \<^verbatim>\<open>None\<close>
  when no module is selected; \<^verbatim>\<open>if module_id\<close> is false for \<^verbatim>\<open>None\<close> and for the empty string.
  \<open>modules_get\<close> is \<^verbatim>\<open>config['modules'].get(module_id, {})\<close>. The generator is the global
  \<^verbatim>\<open>presentation_gen = PresentationGenerator(config)\<close>.
\<close>

definition modules_get :: "config \<Rightarrow> string option \<Rightarrow> module" where
  "modules_get config module_id =
     (case module_id of
        None \<Rightarrow> empty_dict
      | Some m \<Rightarrow> (case map_of (modules config) m of None \<Rightarrow> empty_dict | Some d \<Rightarrow> d))"

definition generate_presentation_slide ::
    "config \<Rightarrow> string option \<Rightarrow> string \<Rightarrow> int \<Rightarrow> py_error + string" where
  "generate_presentation_slide config module_id template_type slide_index =
     (let module_data =
            (if module_id \<noteq> None \<and> module_id \<noteq> Some ''''
             then Some (modules_get config module_id)
             else None)
      in generate_slide config (PresentationGenerator config) template_type slide_index module_data)"

section \<open>The progress store\<close>

text \<open>
  The progress document is a dictionary with eleven keys. The parts that
  \<^verbatim>\<open>update_user_progress\<close> never looks into (assessments, projects, bookmarks, notes) and the
  entries of the session history are JSON values; the key \<^verbatim>\<open>notes\<close> is the field \<open>notes'\<close>.
  A module identifier is \<^verbatim>\<open>None\<close> or a string, as the dropdown of the user interface gives
  it. \<open>current_progress\<close> is a Python number; the model computes it exactly, as a rational.
\<close>

datatype json =
  JNull | JBool bool | JNum rat | JStr string | JArr "json list" | JObj "(string \<times> json) list"

record preferences =
  difficulty_level :: string
  focus_areas :: "string list"
  hands_on_preference :: bool

record progress =
  current_module :: "string option"
  completed_modules :: "string option list"
  current_progress :: rat
  skills_acquired :: "string list"
  assessments_completed :: "json list"
  hands_on_projects :: "json list"
  learning_path :: string
  preferences :: preferences
  session_history :: "json list"
  bookmarks :: "json list"
  notes' :: "(string \<times> json) list"

definition default_progress :: progress where
  "default_progress =
     \<lparr>current_module = None,
      completed_modules = [],
      current_progress = 0,
      skills_acquired = [],
      assessments_completed = [],
      hands_on_projects = [],
      learning_path = ''custom'',
      preferences = \<lparr>difficulty_level = ''intermediate'', focus_areas = [],
                      hands_on_preference = True\<rparr>,
      session_history = [],
      bookmarks = [],
      notes' = []\<rparr>"

text \<open>
  The file \<^verbatim>\<open>user_progress.json\<close>: its text when it exists, and whether the process may open
  it for reading and for writing. \<^verbatim>\<open>json.load\<close> and \<^verbatim>\<open>json.dump\<close> belong to Python's library;
  they are parameters of the model, \<open>json_load\<close> from the text of a file to the document or
  the exception it raises, \<open>json_dump\<close> from a document to its text.
\<close>

record 'txt filesystem =
  user_progress_json :: "'txt option"
  readable :: bool
  writable :: bool

definition open_read :: "'txt filesystem \<Rightarrow> py_error + 'txt" where
  "open_read fs =
     (case user_progress_json fs of
        None \<Rightarrow> Inl FileNotFoundError
      | Some txt \<Rightarrow> if readable fs then Inr txt else Inl PermissionError)"

text \<open>The bare \<^verbatim>\<open>except:\<close> of \<^verbatim>\<open>load_user_progress\<close> turns every exception into the default.\<close>

definition load_user_progress ::
    "('txt \<Rightarrow> py_error + progress) \<Rightarrow> 'txt filesystem \<Rightarrow> progress" where
  "load_user_progress json_load fs =
     (case open_read fs of
        Inl e \<Rightarrow> default_progress
      | Inr txt \<Rightarrow> (case json_load txt of Inl e \<Rightarrow> default_progress | Inr p \<Rightarrow> p))"

definition save_user_progress ::
    "(progress \<Rightarrow> 'txt) \<Rightarrow> progress \<Rightarrow> 'txt filesystem \<Rightarrow> py_error + 'txt filesystem" where
  "save_user_progress json_dump progress_data fs =
     (if writable fs then Inr (fs\<lparr>user_progress_json := Some (json_dump progress_data)\<rparr>)
      else Inl PermissionError)"

text \<open>
  \<^verbatim>\<open>update_user_progress\<close> changes the global \<^verbatim>\<open>user_progress\<close> in place and then saves it. The
  state is the global and the file; an exception leaves the state as it was when it was
  raised. \<open>now\<close> is \<^verbatim>\<open>datetime.now().isoformat()\<close>.
\<close>

record 'txt state =
  user_progress :: progress
  files :: "'txt filesystem"

text \<open>The loop over the topics of the completed module.\<close>

fun add_topics :: "string list \<Rightarrow> string list \<Rightarrow> string list" where
  "add_topics [] skills = skills"
| "add_topics (topic # rest) skills =
     add_topics rest (if topic \<notin> set skills then skills @ [topic] else skills)"

definition str_module_id :: "string option \<Rightarrow> string" where
  "str_module_id module_id = (case module_id of None \<Rightarrow> ''None'' | Some m \<Rightarrow> m)"

definition history_entry :: "string \<Rightarrow> string option \<Rightarrow> string \<Rightarrow> json" where
  "history_entry now module_id action =
     JObj [(''timestamp'', JStr now),
           (''module'', (case module_id of None \<Rightarrow> JNull | Some m \<Rightarrow> JStr m)),
           (''action'', JStr action)]"

text \<open>The first statement of \<^verbatim>\<open>update_user_progress\<close>, the \<^verbatim>\<open>if\<close> over \<^verbatim>\<open>action\<close>.\<close>

definition apply_action ::
    "config \<Rightarrow> string option \<Rightarrow> string \<Rightarrow> progress \<Rightarrow> py_error option \<times> progress" where
  "apply_action config module_id action up =
     (if action = ''complete'' then
        (if module_id \<notin> set (completed_modules up) then
           (let up1 = up\<lparr>completed_modules := completed_modules up @ [module_id]\<rparr>
            in if dict_len (modules config) = 0 then (Some ZeroDivisionError, up1)
               else
                 (let up2 = up1\<lparr>current_progress :=
                              of_nat (length (completed_modules up1))
                                / of_nat (dict_len (modules config)) * 100\<rparr>;
                      module_data = modules_get config module_id
                  in (None, up2\<lparr>skills_acquired :=
                               add_topics (dict_get (topics module_data) []) (skills_acquired up2)\<rparr>)))
         else (None, up))
      else if action = ''start'' then (None, up\<lparr>current_module := module_id\<rparr>)
      else (None, up))"

definition update_user_progress ::
    "config \<Rightarrow> (progress \<Rightarrow> 'txt) \<Rightarrow> string \<Rightarrow> string option \<Rightarrow> string \<Rightarrow> 'txt state
      \<Rightarrow> (py_error + string) \<times> 'txt state" where
  "update_user_progress config json_dump now module_id action s =
     (case apply_action config module_id action (user_progress s) of
        (Some e, up) \<Rightarrow> (Inl e, s\<lparr>user_progress := up\<rparr>)
      | (None, up) \<Rightarrow>
          (let up' = up\<lparr>session_history :=
                        session_history up @ [history_entry now module_id action]\<rparr>
           in case save_user_progress json_dump up' (files s) of
                Inl e \<Rightarrow> (Inl e, s\<lparr>user_progress := up'\<rparr>)
              | Inr fs \<Rightarrow>
                  (Inr (''Progress updated: '' @ action @ '' for module '' @ str_module_id module_id),
                   \<lparr>user_progress = up', files = fs\<rparr>)))"

section \<open>A sample configuration\<close>

text \<open>
  The configuration of the test fixtures (\<^verbatim>\<open>tests/fixtures/sample_configs.py\<close>,
  \<^verbatim>\<open>SAMPLE_MODULE_CONFIG\<close>): three modules, the four templates and the three difficulty levels.
\<close>

definition sample_module_config :: config where
  "sample_module_config =
     \<lparr>modules =
        [(''programming_with_ai'',
          \<lparr>title = Some ''Programming/Building Projects with AI'',
           description = Some ''Practical AI-driven development for QA professionals'',
           topics = Some [''Automation Tools Development'', ''Chatbot Integration for QA'',
                          ''Personal QA Assistants'', ''Test Data Generation'',
                          ''API Testing Automation''],
           hands_on = Some True,
           difficulty = Some ''intermediate'',
           other_keys = []\<rparr>),
         (''ai_best_practices'',
          \<lparr>title = Some ''Best Practices with AI'',
           description = Some ''Effective and safe AI usage in QA workflows'',
           topics = Some [''Prompt Design for QA'', ''Workflow Integration'',
                          ''Smart Decision Making'', ''AI Model Selection'', ''Quality Metrics''],
           hands_on = Some True,
           difficulty = Some ''beginner'',
           other_keys = []\<rparr>),
         (''qa_ai_integration'',
          \<lparr>title = Some ''QA + AI Integration'',
           description = Some ''Advanced AI integration in testing processes'',
           topics = Some [''Automated Test Case Generation'', ''AI-Driven Bug Analysis'',
                          ''LLM Integration in Testing'', ''Visual Testing with AI'',
                          ''Performance Testing Automation''],
           hands_on = Some True,
           difficulty = Some ''advanced'',
           other_keys = []\<rparr>)],
      presentation_templates =
        [(''introduction'',
          \<lparr>slides = [''Welcome to AI-Driven QA'', ''Your Learning Journey'',
                     ''Tools and Resources'', ''Expected Outcomes'']\<rparr>),
         (''module_overview'',
          \<lparr>slides = [''Module Introduction'', ''Learning Objectives'', ''Key Topics'',
                     ''Hands-on Activities'', ''Assessment Criteria'']\<rparr>),
         (''hands_on_session'',
          \<lparr>slides = [''Setup and Prerequisites'', ''Step-by-Step Implementation'',
                     ''Common Challenges'', ''Best Practices'', ''Next Steps'']\<rparr>),
         (''conclusion'',
          \<lparr>slides = [''Key Takeaways'', ''Further Resources'', ''Community and Support'',
                     ''Certification Path'']\<rparr>)],
      assessment_criteria =
        [(''beginner'', \<lparr>understanding = 40, application = 30, problem_solving = 30\<rparr>),
         (''intermediate'', \<lparr>understanding = 30, application = 40, problem_solving = 30\<rparr>),
         (''advanced'', \<lparr>understanding = 20, application = 40, problem_solving = 40\<rparr>)]\<rparr>"

text \<open>
  The same configuration with the weights 30, 50 and 20 for the intermediate level, and two
  modules as the unit tests pass them to \<^verbatim>\<open>generate_slide\<close>: the sample module of
  \<^verbatim>\<open>TestPresentationGenerator\<close> and a module whose difficulty is not a key of the table.
\<close>

definition weighted_config :: config where
  "weighted_config =
     sample_module_config\<lparr>assessment_criteria :=
       [(''beginner'', \<lparr>understanding = 40, application = 30, problem_solving = 30\<rparr>),
        (''intermediate'', \<lparr>understanding = 30, application = 50, problem_solving = 20\<rparr>),
        (''advanced'', \<lparr>understanding = 20, application = 40, problem_solving = 40\<rparr>)]\<rparr>"

definition sample_module :: module where
  "sample_module =
     \<lparr>title = Some ''Test Module'',
      description = Some ''A test module for unit testing'',
      topics = Some [''Topic 1'', ''Topic 2'', ''Topic 3''],
      hands_on = Some True,
      difficulty = Some ''intermediate'',
      other_keys = []\<rparr>"

definition expert_module :: module where
  "expert_module = sample_module\<lparr>difficulty := Some ''expert''\<rparr>"


definition no_file :: "'txt filesystem" where
  "no_file = \<lparr>user_progress_json = None, readable = True, writable = True\<rparr>"


section \<open>Facts about the resolver\<close>

lemma sublist_in_append: "sublist xs ys \<Longrightarrow> sublist xs (ps @ ys @ ss)"
  by (metis sublist_appendI sublist_order.order_trans)

lemma understanding_shown:
  "sublist (''**Understanding** ('' @ py_str (understanding c) @ ''%)'') (assessment_components c)"
proof -
  have "assessment_components c =
      ''- '' @ (''**Understanding** ('' @ py_str (understanding c) @ ''%)'') @
      ('': Conceptual grasp\<newline>'' @
       ''- **Application** ('' @ py_str (application c) @ ''%): Practical implementation\<newline>'' @
       ''- **Problem Solving** ('' @ py_str (problem_solving c) @ ''%): Critical thinking\<newline>'')"
    by (simp add: assessment_components_def)
  then show ?thesis
    by (simp only: sublist_appendI)
qed

lemma application_shown:
  "sublist (''**Application** ('' @ py_str (application c) @ ''%)'') (assessment_components c)"
proof -
  have "assessment_components c =
      (''- **Understanding** ('' @ py_str (understanding c) @ ''%): Conceptual grasp\<newline>'' @ ''- '') @
      (''**Application** ('' @ py_str (application c) @ ''%)'') @
      ('': Practical implementation\<newline>'' @
       ''- **Problem Solving** ('' @ py_str (problem_solving c) @ ''%): Critical thinking\<newline>'')"
    by (simp add: assessment_components_def)
  then show ?thesis
    by (simp only: sublist_appendI)
qed

lemma problem_solving_shown:
  "sublist (''**Problem Solving** ('' @ py_str (problem_solving c) @ ''%)'') (assessment_components c)"
proof -
  have "assessment_components c =
      (''- **Understanding** ('' @ py_str (understanding c) @ ''%): Conceptual grasp\<newline>'' @
       ''- **Application** ('' @ py_str (application c) @ ''%): Practical implementation\<newline>'' @
       ''- '') @
      (''**Problem Solving** ('' @ py_str (problem_solving c) @ ''%)'') @
      '': Critical thinking\<newline>''"
    by (simp add: assessment_components_def)
  then show ?thesis
    by (simp only: sublist_appendI)
qed

lemma percent_in: "sublist (n @ ''%'') (a @ n @ ''%)'')"
proof -
  have "a @ n @ ''%)'' = a @ (n @ ''%'') @ '')''"
    by simp
  then show ?thesis
    by (simp only: sublist_appendI)
qed

lemma in_content_4:
  "sublist xs (assessment_components c) \<Longrightarrow> sublist xs (module_overview_content_4 t md c)"
  unfolding module_overview_content_4_def by (rule sublist_in_append)

lemma py_str_30: "py_str 30 = ''30''"
  by code_simp

lemma py_str_50: "py_str 50 = ''50''"
  by code_simp

text \<open>The three paths of \<^verbatim>\<open>generate_slide\<close> for the module overview with an index in bounds.\<close>

lemma generate_slide_no_data:
  assumes "map_of (templates self) ''module_overview'' = Some template"
    and "0 \<le> i" and "i < int (length (slides template))"
    and "\<not> truthy module_data"
  shows "generate_slide config self ''module_overview'' i module_data =
           Inr (''# '' @ slides template ! nat i @ ''\<newline>\<newline>Module data not available'')"
  using assms
  by (simp add: generate_slide_def py_index_def generate_module_overview_slide_def)

lemma generate_slide_overview_4:
  assumes "map_of (templates self) ''module_overview'' = Some template"
    and "4 < length (slides template)"
    and "module_data \<noteq> empty_dict"
    and "map_of (assessment_criteria config) (dict_get (difficulty module_data) ''intermediate'') = Some c"
  shows "generate_slide config self ''module_overview'' 4 (Some module_data) =
           Inr (module_overview_content_4 (slides template ! 4) module_data c)"
  using assms
  by (simp add: generate_slide_def py_index_def generate_module_overview_slide_def truthy_def)

lemma generate_slide_unknown_difficulty:
  assumes "map_of (templates self) ''module_overview'' = Some template"
    and "0 \<le> i" and "i < int (length (slides template))"
    and "module_data \<noteq> empty_dict"
    and "map_of (assessment_criteria config) (dict_get (difficulty module_data) ''intermediate'') = None"
  shows "generate_slide config self ''module_overview'' i (Some module_data) = Inl KeyError"
  using assms
  by (simp add: generate_slide_def py_index_def generate_module_overview_slide_def truthy_def)

lemma generate_slide_above:
  assumes "map_of (templates self) template_type = Some template"
    and "int (length (slides template)) \<le> i"
  shows "generate_slide config self template_type i module_data = Inr ''Slide not found''"
  using assms by (simp add: generate_slide_def)

lemma generate_slide_below:
  assumes "map_of (templates self) template_type = Some template"
    and "i < - int (length (slides template))"
  shows "generate_slide config self template_type i module_data = Inl IndexError"
  using assms by (simp add: generate_slide_def py_index_def)

text \<open>
  Where the resolver does return a string: for every template type and every index that is
  not negative, when the module data is absent, empty, or has a difficulty
  (\<^verbatim>\<open>"intermediate"\<close> when the record has none) that is a key of the criteria table.
\<close>

lemma generate_slide_returns:
  assumes "0 \<le> slide_index"
    and "\<And>d. module_data = Some d \<Longrightarrow> d \<noteq> empty_dict \<Longrightarrow>
           map_of (assessment_criteria config) (dict_get (difficulty d) ''intermediate'') \<noteq> None"
  shows "\<exists>s. generate_slide config self template_type slide_index module_data = Inr s"
proof (cases "map_of (templates self) template_type")
  case None
  then show ?thesis
    by (simp add: generate_slide_def)
next
  case (Some template)
  show ?thesis
  proof (cases "slide_index \<ge> int (length (slides template))")
    case True
    then show ?thesis
      using Some by (simp add: generate_slide_def)
  next
    case False
    then have ix: "py_index (slides template) slide_index = Inr (slides template ! nat slide_index)"
      using assms(1) by (simp add: py_index_def)
    have ov: "\<exists>s. generate_module_overview_slide config t slide_index module_data = Inr s" for t
    proof (cases "truthy module_data")
      case False
      then show ?thesis
        by (simp add: generate_module_overview_slide_def)
    next
      case True
      then obtain d where d: "module_data = Some d" "d \<noteq> empty_dict"
        by (auto simp: truthy_def split: option.splits)
      then obtain c where
        "map_of (assessment_criteria config) (dict_get (difficulty d) ''intermediate'') = Some c"
        using assms(2) by blast
      then show ?thesis
        using d by (simp add: generate_module_overview_slide_def truthy_def)
    qed
    show ?thesis
      using Some False ix ov [of "slides template ! nat slide_index"]
      by (auto simp: generate_slide_def)
  qed
qed

lemma not_available_in:
  "sublist ''Module data not available'' (''# '' @ t @ ''\<newline>\<newline>Module data not available'')"
proof -
  have "''# '' @ t @ ''\<newline>\<newline>Module data not available'' =
        (''# '' @ t @ ''\<newline>\<newline>'') @ ''Module data not available''"
    by simp
  then show ?thesis
    by (simp only: sublist_append_leftI)
qed

lemma sample_templates:
  "map_of (templates (PresentationGenerator sample_module_config)) ''introduction'' =
     Some \<lparr>slides = [''Welcome to AI-Driven QA'', ''Your Learning Journey'',
                    ''Tools and Resources'', ''Expected Outcomes'']\<rparr>"
  "map_of (templates (PresentationGenerator sample_module_config)) ''module_overview'' =
     Some \<lparr>slides = [''Module Introduction'', ''Learning Objectives'', ''Key Topics'',
                    ''Hands-on Activities'', ''Assessment Criteria'']\<rparr>"
  by (simp_all add: PresentationGenerator_def sample_module_config_def)

lemma weighted_templates:
  "map_of (templates (PresentationGenerator weighted_config)) ''module_overview'' =
     Some \<lparr>slides = [''Module Introduction'', ''Learning Objectives'', ''Key Topics'',
                    ''Hands-on Activities'', ''Assessment Criteria'']\<rparr>"
  by (simp add: PresentationGenerator_def weighted_config_def sample_module_config_def)

section \<open>The claims about the resolver\<close>

text \<open>
  C1 (the resolver returns a string for every template type, every integer index and every
  module, and never raises). The code raises on two inputs of that domain. With the sample
  configuration, \<^verbatim>\<open>generate_slide("module_overview", 0, m)\<close> for a module \<open>m\<close> whose
  difficulty is \<^verbatim>\<open>"expert"\<close> raises \<^verbatim>\<open>KeyError\<close>, at index 0 as at every other index, because
  the assessment entry of the content table is built before the index is looked up. And
  \<^verbatim>\<open>generate_slide("hands_on_session", -6)\<close> raises \<^verbatim>\<open>IndexError\<close>, because the guard tests
  the upper bound only.
\<close>

theorem generate_slide_raises:
  "generate_slide sample_module_config (PresentationGenerator sample_module_config)
     ''module_overview'' 0 (Some expert_module) = Inl KeyError
   \<and> generate_slide sample_module_config (PresentationGenerator sample_module_config)
     ''hands_on_session'' (- 6) None = Inl IndexError"
  by (simp add: generate_slide_def PresentationGenerator_def sample_module_config_def
      py_index_def generate_module_overview_slide_def truthy_def empty_dict_def dict_get_def
      expert_module_def sample_module_def)

text \<open>
  C2 (an index outside the bounds of the template's slide titles gives exactly
  \<^verbatim>\<open>"Slide not found"\<close>). The guard is \<^verbatim>\<open>slide_index >= len(slides)\<close>, so the claim holds above
  the bounds: \<^verbatim>\<open>generate_slide("introduction", 999)\<close> is \<^verbatim>\<open>"Slide not found"\<close>. Below them it
  fails: with the four introduction slides, index \<open>-5\<close> raises \<^verbatim>\<open>IndexError\<close>, and index \<open>-1\<close>
  is read from the end of the list and gives the fallback slide of the last title.
\<close>

theorem negative_index_not_reported:
  "generate_slide sample_module_config (PresentationGenerator sample_module_config)
     ''introduction'' 999 None = Inr ''Slide not found''
   \<and> generate_slide sample_module_config (PresentationGenerator sample_module_config)
     ''introduction'' (- 5) None = Inl IndexError
   \<and> generate_slide sample_module_config (PresentationGenerator sample_module_config)
     ''introduction'' (- 1) None = Inr ''# Expected Outcomes\<newline>\<newline>Content coming soon...''"
  by (simp add: generate_slide_def PresentationGenerator_def sample_module_config_def
      py_index_def generate_introduction_slide_def coming_soon_def)

text \<open>
  C3, as the claim states it (for every module record, slide 4 of the module overview holds
  the percentages of the module's difficulty, \<^verbatim>\<open>"intermediate"\<close> when it has none), fails for
  the empty record: it has no difficulty, and with the weights 30, 50, 20 for the
  intermediate level the slide is the one for missing module data, without \<^verbatim>\<open>"30%"\<close>.
\<close>

theorem empty_module_has_no_percentages:
  "map_of (assessment_criteria weighted_config) ''intermediate'' =
     Some \<lparr>understanding = 30, application = 50, problem_solving = 20\<rparr>
   \<and> difficulty empty_dict = None
   \<and> generate_slide weighted_config (PresentationGenerator weighted_config)
        ''module_overview'' 4 (Some empty_dict) =
      Inr ''# Assessment Criteria\<newline>\<newline>Module data not available''
   \<and> \<not> sublist ''30%'' ''# Assessment Criteria\<newline>\<newline>Module data not available''"
proof -
  have "generate_slide weighted_config (PresentationGenerator weighted_config)
        ''module_overview'' 4 (Some empty_dict) =
      Inr ''# Assessment Criteria\<newline>\<newline>Module data not available''"
    using generate_slide_no_data [OF weighted_templates, of 4 "Some empty_dict" weighted_config]
    by (simp add: truthy_def)
  moreover have "\<not> sublist ''30%'' ''# Assessment Criteria\<newline>\<newline>Module data not available''"
    by code_simp
  ultimately show ?thesis
    by (simp add: weighted_config_def empty_dict_def)
qed

text \<open>
  C3, amended: for every module record that is not empty and whose difficulty
  (\<^verbatim>\<open>"intermediate"\<close> when the record has none) is a key of \<^verbatim>\<open>assessment_criteria\<close>, slide 4 of
  a module overview template with at least five slides is returned with the three
  percentages of that key in its text, each followed by \<^verbatim>\<open>%\<close>; when the weights found are 30
  for understanding and 50 for application, the text contains \<^verbatim>\<open>"30%"\<close> and \<^verbatim>\<open>"50%"\<close>.
\<close>

theorem assessment_slide_percentages:
  assumes "map_of (templates self) ''module_overview'' = Some template"
    and "4 < length (slides template)"
    and "module_data \<noteq> empty_dict"
    and "map_of (assessment_criteria config)
           (case difficulty module_data of None \<Rightarrow> ''intermediate'' | Some d \<Rightarrow> d) = Some c"
  shows "\<exists>s. generate_slide config self ''module_overview'' 4 (Some module_data) = Inr s
           \<and> sublist (''**Understanding** ('' @ py_str (understanding c) @ ''%)'') s
           \<and> sublist (''**Application** ('' @ py_str (application c) @ ''%)'') s
           \<and> sublist (''**Problem Solving** ('' @ py_str (problem_solving c) @ ''%)'') s
           \<and> (understanding c = 30 \<and> application c = 50 \<longrightarrow> sublist ''30%'' s \<and> sublist ''50%'' s)"
proof -
  let ?s = "module_overview_content_4 (slides template ! 4) module_data c"
  have key: "map_of (assessment_criteria config) (dict_get (difficulty module_data) ''intermediate'') = Some c"
    using assms(4) by (simp add: dict_get_def)
  have run: "generate_slide config self ''module_overview'' 4 (Some module_data) = Inr ?s"
    using assms(1-3) key by (rule generate_slide_overview_4)
  have u: "sublist (''**Understanding** ('' @ py_str (understanding c) @ ''%)'') ?s"
    by (rule in_content_4 [OF understanding_shown])
  have a: "sublist (''**Application** ('' @ py_str (application c) @ ''%)'') ?s"
    by (rule in_content_4 [OF application_shown])
  have p: "sublist (''**Problem Solving** ('' @ py_str (problem_solving c) @ ''%)'') ?s"
    by (rule in_content_4 [OF problem_solving_shown])
  have "sublist ''30%'' ?s" if "understanding c = 30"
  proof -
    have "sublist (py_str (understanding c) @ ''%'')
            (''**Understanding** ('' @ py_str (understanding c) @ ''%)'')"
      by (rule percent_in)
    then have "sublist (py_str (understanding c) @ ''%'') ?s"
      using u sublist_order.order_trans by blast
    then show ?thesis
      using that py_str_30 by simp
  qed
  moreover have "sublist ''50%'' ?s" if "application c = 50"
  proof -
    have "sublist (py_str (application c) @ ''%'')
            (''**Application** ('' @ py_str (application c) @ ''%)'')"
      by (rule percent_in)
    then have "sublist (py_str (application c) @ ''%'') ?s"
      using a sublist_order.order_trans by blast
    then show ?thesis
      using that py_str_50 by simp
  qed
  ultimately show ?thesis
    using run u a p by blast
qed

text \<open>
  The amended C3 at the sample module of the unit tests, with the weights 30, 50, 20: the
  hypotheses hold, and the slide contains \<^verbatim>\<open>"30%"\<close> and \<^verbatim>\<open>"50%"\<close>.
\<close>

theorem assessment_slide_percentages_witness:
  "map_of (templates (PresentationGenerator weighted_config)) ''module_overview'' =
     Some \<lparr>slides = [''Module Introduction'', ''Learning Objectives'', ''Key Topics'',
                    ''Hands-on Activities'', ''Assessment Criteria'']\<rparr>
   \<and> 4 < length (slides \<lparr>slides = [''Module Introduction'', ''Learning Objectives'', ''Key Topics'',
                    ''Hands-on Activities'', ''Assessment Criteria'']\<rparr>)
   \<and> sample_module \<noteq> empty_dict
   \<and> map_of (assessment_criteria weighted_config)
        (case difficulty sample_module of None \<Rightarrow> ''intermediate'' | Some d \<Rightarrow> d) =
      Some \<lparr>understanding = 30, application = 50, problem_solving = 20\<rparr>
   \<and> (\<exists>s. generate_slide weighted_config (PresentationGenerator weighted_config)
              ''module_overview'' 4 (Some sample_module) = Inr s
          \<and> sublist ''30%'' s \<and> sublist ''50%'' s)"
proof -
  let ?template = "\<lparr>slides = [''Module Introduction'', ''Learning Objectives'', ''Key Topics'',
                    ''Hands-on Activities'', ''Assessment Criteria'']\<rparr>"
  let ?c = "\<lparr>understanding = 30, application = 50, problem_solving = 20\<rparr>"
  have h1: "map_of (templates (PresentationGenerator weighted_config)) ''module_overview'' = Some ?template"
    by (rule weighted_templates)
  have h2: "4 < length (slides ?template)"
    by simp
  have h3: "sample_module \<noteq> empty_dict"
    by (simp add: sample_module_def empty_dict_def)
  have h4: "map_of (assessment_criteria weighted_config)
        (case difficulty sample_module of None \<Rightarrow> ''intermediate'' | Some d \<Rightarrow> d) = Some ?c"
    by (simp add: weighted_config_def sample_module_def)
  have "\<exists>s. generate_slide weighted_config (PresentationGenerator weighted_config)
              ''module_overview'' 4 (Some sample_module) = Inr s
          \<and> sublist ''30%'' s \<and> sublist ''50%'' s"
    using assessment_slide_percentages [OF h1 h2 h3 h4] by auto
  then show ?thesis
    using h1 h2 h3 h4 by blast
qed

text \<open>
  C8: for the template \<^verbatim>\<open>"module_overview"\<close> and a slide index within the bounds of its
  titles, \<^verbatim>\<open>generate_slide\<close> with no module data (\<^verbatim>\<open>None\<close>) returns the heading \<^verbatim>\<open>"# "\<close> with
  the slide title, followed by \<^verbatim>\<open>"\n\nModule data not available"\<close>. So the result ends with
  the title followed by that text, contains \<^verbatim>\<open>"Module data not available"\<close>, and is neither
  of the two not-found messages.
\<close>

theorem module_overview_without_data:
  assumes "map_of (templates self) ''module_overview'' = Some template"
    and "0 \<le> i" and "i < int (length (slides template))"
  shows "\<exists>s. generate_slide config self ''module_overview'' i None = Inr s
           \<and> s = ''# '' @ slides template ! nat i @ ''\<newline>\<newline>Module data not available''
           \<and> suffix (slides template ! nat i @ ''\<newline>\<newline>Module data not available'') s
           \<and> sublist ''Module data not available'' s
           \<and> s \<noteq> ''Slide not found'' \<and> s \<noteq> ''Template not found''"
proof -
  have "generate_slide config self ''module_overview'' i None =
          Inr (''# '' @ slides template ! nat i @ ''\<newline>\<newline>Module data not available'')"
    using assms by (intro generate_slide_no_data) (simp_all add: truthy_def)
  moreover have "suffix (slides template ! nat i @ ''\<newline>\<newline>Module data not available'')
      (''# '' @ slides template ! nat i @ ''\<newline>\<newline>Module data not available'')"
    by (rule suffix_appendI) simp
  ultimately show ?thesis
    using not_available_in [of "slides template ! nat i"] by simp
qed

text \<open>C8 at \<^verbatim>\<open>generate_slide("module_overview", 0, None)\<close> with the sample configuration.\<close>

theorem module_overview_without_data_witness:
  "map_of (templates (PresentationGenerator sample_module_config)) ''module_overview'' =
     Some \<lparr>slides = [''Module Introduction'', ''Learning Objectives'', ''Key Topics'',
                    ''Hands-on Activities'', ''Assessment Criteria'']\<rparr>
   \<and> (0 :: int) \<le> 0
   \<and> (0 :: int) < int (length (slides \<lparr>slides = [''Module Introduction'', ''Learning Objectives'',
                    ''Key Topics'', ''Hands-on Activities'', ''Assessment Criteria'']\<rparr>))
   \<and> generate_slide sample_module_config (PresentationGenerator sample_module_config)
        ''module_overview'' 0 None =
      Inr ''# Module Introduction\<newline>\<newline>Module data not available''
   \<and> sublist ''Module data not available''
        ''# Module Introduction\<newline>\<newline>Module data not available''"
proof -
  let ?template = "\<lparr>slides = [''Module Introduction'', ''Learning Objectives'', ''Key Topics'',
                    ''Hands-on Activities'', ''Assessment Criteria'']\<rparr>"
  have h1: "map_of (templates (PresentationGenerator sample_module_config)) ''module_overview'' =
      Some ?template"
    by (rule sample_templates)
  have h2: "(0 :: int) \<le> 0"
    by simp
  have h3: "(0 :: int) < int (length (slides ?template))"
    by simp
  show ?thesis
    using module_overview_without_data [OF h1 h2 h3, of sample_module_config] h1
    by auto
qed

text \<open>
  C10: for a module identifier that is not \<^verbatim>\<open>None\<close> and not a key of the modules table,
  \<^verbatim>\<open>config['modules'].get(module_id, {})\<close> is the empty record, and
  \<^verbatim>\<open>generate_presentation_slide\<close> for the module overview at an index in bounds returns what
  the resolver returns for the empty record, which is what it returns for no module data:
  the slide \<^verbatim>\<open>"Module data not available"\<close>, not an exception.
\<close>

theorem unknown_module_overview:
  assumes "map_of (presentation_templates config) ''module_overview'' = Some template"
    and "0 \<le> i" and "i < int (length (slides template))"
    and "map_of (modules config) m = None"
  shows "modules_get config (Some m) = empty_dict
       \<and> generate_presentation_slide config (Some m) ''module_overview'' i =
           generate_slide config (PresentationGenerator config) ''module_overview'' i (Some empty_dict)
       \<and> generate_slide config (PresentationGenerator config) ''module_overview'' i (Some empty_dict) =
           generate_slide config (PresentationGenerator config) ''module_overview'' i None
       \<and> generate_presentation_slide config (Some m) ''module_overview'' i =
           Inr (''# '' @ slides template ! nat i @ ''\<newline>\<newline>Module data not available'')"
proof -
  let ?gen = "PresentationGenerator config"
  have t: "map_of (templates ?gen) ''module_overview'' = Some template"
    using assms(1) by (simp add: PresentationGenerator_def)
  have get: "modules_get config (Some m) = empty_dict"
    using assms(4) by (simp add: modules_get_def)
  have none: "generate_slide config ?gen ''module_overview'' i None =
      Inr (''# '' @ slides template ! nat i @ ''\<newline>\<newline>Module data not available'')"
    using t assms(2,3) by (intro generate_slide_no_data) (simp_all add: truthy_def)
  have empty: "generate_slide config ?gen ''module_overview'' i (Some empty_dict) =
      Inr (''# '' @ slides template ! nat i @ ''\<newline>\<newline>Module data not available'')"
    using t assms(2,3) by (intro generate_slide_no_data) (simp_all add: truthy_def)
  have "generate_presentation_slide config (Some m) ''module_overview'' i =
      Inr (''# '' @ slides template ! nat i @ ''\<newline>\<newline>Module data not available'')"
    using get none empty by (simp add: generate_presentation_slide_def)
  then show ?thesis
    using get none empty by simp
qed

text \<open>
  C10 at \<^verbatim>\<open>generate_presentation_slide("no_such_module", "module_overview", 2)\<close> with the
  sample configuration.
\<close>

theorem unknown_module_overview_witness:
  "map_of (presentation_templates sample_module_config) ''module_overview'' =
     Some \<lparr>slides = [''Module Introduction'', ''Learning Objectives'', ''Key Topics'',
                    ''Hands-on Activities'', ''Assessment Criteria'']\<rparr>
   \<and> (0 :: int) \<le> 2
   \<and> (2 :: int) < int (length (slides \<lparr>slides = [''Module Introduction'', ''Learning Objectives'',
                    ''Key Topics'', ''Hands-on Activities'', ''Assessment Criteria'']\<rparr>))
   \<and> map_of (modules sample_module_config) ''no_such_module'' = None
   \<and> generate_presentation_slide sample_module_config (Some ''no_such_module'')
        ''module_overview'' 2 =
      Inr ''# Key Topics\<newline>\<newline>Module data not available''"
proof -
  let ?template = "\<lparr>slides = [''Module Introduction'', ''Learning Objectives'', ''Key Topics'',
                    ''Hands-on Activities'', ''Assessment Criteria'']\<rparr>"
  have h1: "map_of (presentation_templates sample_module_config) ''module_overview'' = Some ?template"
    by (simp add: sample_module_config_def)
  have h2: "(0 :: int) \<le> 2"
    by simp
  have h3: "(2 :: int) < int (length (slides ?template))"
    by simp
  have h4: "map_of (modules sample_module_config) ''no_such_module'' = None"
    by (simp add: sample_module_config_def)
  have "generate_presentation_slide sample_module_config (Some ''no_such_module'')
        ''module_overview'' 2 =
      Inr (''# '' @ slides ?template ! nat 2 @ ''\<newline>\<newline>Module data not available'')"
    using unknown_module_overview [OF h1 h2 h3 h4] by blast
  then have "generate_presentation_slide sample_module_config (Some ''no_such_module'')
        ''module_overview'' 2 =
      Inr ''# Key Topics\<newline>\<newline>Module data not available''"
    by simp
  then show ?thesis
    using h1 h4 by simp
qed

section \<open>Facts about the progress store\<close>

lemma dict_len_0: "dict_len d = 0 \<longleftrightarrow> d = []"
  by (simp add: dict_len_def)










text \<open>
  With an empty modules table the division raises, after the module was appended: the
  first completion of a module then ends in \<^verbatim>\<open>ZeroDivisionError\<close>.
\<close>

lemma apply_action_complete_no_modules:
  assumes "module_id \<notin> set (completed_modules up)" and "modules config = []"
  shows "apply_action config module_id ''complete'' up =
    (Some ZeroDivisionError, up\<lparr>completed_modules := completed_modules up @ [module_id]\<rparr>)"
  using assms by (simp add: apply_action_def Let_def dict_len_0)




lemma update_unwritable:
  assumes "apply_action config module_id action (user_progress s) = (None, up)"
    and "\<not> writable (files s)"
  shows "fst (update_user_progress config json_dump now module_id action s) = Inl PermissionError"
  using assms by (simp add: update_user_progress_def save_user_progress_def Let_def)

text \<open>
  The two ways \<^verbatim>\<open>update_user_progress\<close> raises: the first completion of a module with an
  empty modules table, and a progress file that cannot be written, where
  \<^verbatim>\<open>save_user_progress\<close> lets the \<^verbatim>\<open>PermissionError\<close> through.
\<close>

lemma update_complete_no_modules:
  assumes "module_id \<notin> set (completed_modules (user_progress s))" and "modules config = []"
  shows "fst (update_user_progress config json_dump now module_id ''complete'' s) =
           Inl ZeroDivisionError"
  using assms
  by (simp add: update_user_progress_def apply_action_complete_no_modules)




section \<open>The claims about the progress store\<close>





text \<open>
  C6: when the progress file does not exist, cannot be opened for reading, or holds a text
  that \<^verbatim>\<open>json.load\<close> rejects, \<^verbatim>\<open>load_user_progress()\<close> returns the default record:
  \<^verbatim>\<open>completed_modules\<close> is \<^verbatim>\<open>[]\<close>, \<^verbatim>\<open>current_progress\<close> is 0, \<^verbatim>\<open>current_module\<close> is \<^verbatim>\<open>None\<close>, every
  other collection is empty, and \<^verbatim>\<open>preferences.difficulty_level\<close> is \<^verbatim>\<open>"intermediate"\<close>.
\<close>

theorem load_falls_back:
  assumes "user_progress_json fs = None \<or> \<not> readable fs
           \<or> (\<exists>txt e. user_progress_json fs = Some txt \<and> json_load txt = Inl e)"
  shows "let p = load_user_progress json_load fs
         in p = default_progress
          \<and> completed_modules p = [] \<and> current_progress p = 0 \<and> current_module p = None
          \<and> skills_acquired p = [] \<and> assessments_completed p = [] \<and> hands_on_projects p = []
          \<and> focus_areas (preferences p) = [] \<and> session_history p = [] \<and> bookmarks p = []
          \<and> notes' p = []
          \<and> difficulty_level (preferences p) = ''intermediate''"
proof -
  have "load_user_progress json_load fs = default_progress"
    using assms
    by (auto simp: load_user_progress_def open_read_def split: option.splits sum.splits)
  then show ?thesis
    by (simp add: default_progress_def)
qed

text \<open>
  C6 for a corrupt file, the text \<^verbatim>\<open>{ invalid json content\<close> of the unit tests, which the
  parser rejects, and for a file that does not exist.
\<close>

theorem load_falls_back_witness:
  "user_progress_json \<lparr>user_progress_json = Some ''{ invalid json content'', readable = True,
      writable = True\<rparr> = Some ''{ invalid json content''
   \<and> (\<lambda>txt :: string. Inl JSONDecodeError :: py_error + progress) ''{ invalid json content'' =
        Inl JSONDecodeError
   \<and> load_user_progress (\<lambda>txt. Inl JSONDecodeError)
        \<lparr>user_progress_json = Some ''{ invalid json content'', readable = True,
          writable = True\<rparr> = default_progress
   \<and> user_progress_json (no_file :: string filesystem) = None
   \<and> load_user_progress (\<lambda>txt. Inl JSONDecodeError) (no_file :: string filesystem) =
        default_progress
   \<and> completed_modules (load_user_progress (\<lambda>txt. Inl JSONDecodeError)
        (no_file :: string filesystem)) = []
   \<and> current_progress (load_user_progress (\<lambda>txt. Inl JSONDecodeError)
        (no_file :: string filesystem)) = 0
   \<and> current_module (load_user_progress (\<lambda>txt. Inl JSONDecodeError)
        (no_file :: string filesystem)) = None"
proof -
  let ?fs = "\<lparr>user_progress_json = Some ''{ invalid json content'', readable = True,
      writable = True\<rparr>"
  let ?none = "no_file :: string filesystem"
  let ?load = "\<lambda>txt :: string. Inl JSONDecodeError :: py_error + progress"
  have h: "user_progress_json ?fs = None \<or> \<not> readable ?fs
      \<or> (\<exists>txt e. user_progress_json ?fs = Some txt \<and> ?load txt = Inl e)"
    by simp
  have n: "user_progress_json ?none = None"
    by (simp add: no_file_def)
  then have h': "user_progress_json ?none = None \<or> \<not> readable ?none
      \<or> (\<exists>txt e. user_progress_json ?none = Some txt \<and> ?load txt = Inl e)"
    by simp
  have corrupt: "load_user_progress ?load ?fs = default_progress"
    using load_falls_back [OF h, unfolded Let_def] by blast
  have missing: "load_user_progress ?load ?none = default_progress
      \<and> completed_modules (load_user_progress ?load ?none) = []
      \<and> current_progress (load_user_progress ?load ?none) = 0
      \<and> current_module (load_user_progress ?load ?none) = None"
    using load_falls_back [OF h', unfolded Let_def] by blast
  show ?thesis
    using corrupt missing n by (simp add: default_progress_def)
qed




end
